theory Spec2Isabelle
  imports Main "HOL-Library.Char_ord" "HOL-Library.Sublist"
begin

section \<open>The installer helpers of lib/util.js\<close>

text \<open>
  The module is a handful of short functions over the Node runtime: the process
  environment, the file system, a child process, a hash of a file and the module loader.
  Each function of the source is a HOL function of the same name over an explicit
  \<open>world\<close>, the record of everything the runtime answers. A JavaScript string is a
  \<open>string\<close>: a list of code units, here the units below 256. Calls to
  \<open>console.log\<close> and \<open>console.error\<close> change nothing that a function returns and
  are left out.
\<close>

subsection \<open>Values, errors and promises\<close>

text \<open>A thrown or rejected JavaScript error, with its code or message.\<close>

datatype js_error = JsError string

text \<open>
  The values that \<open>findValidPhantomJsBinary\<close> resolves to: \<open>false\<close>, a path, or
  \<open>undefined\<close> when a callback returns nothing.
\<close>

datatype jsval = JUndefined | JBool bool | JString string

fun truthy :: "jsval \<Rightarrow> bool" where
  "truthy JUndefined = False"
| "truthy (JBool b) = b"
| "truthy (JString s) = (s \<noteq> [])"

definition falsy :: "jsval \<Rightarrow> bool" where
  "falsy v = (\<not> truthy v)"

text \<open>
  A settled kew promise. A synchronous computation that may throw is a sum,
  \<open>Inl\<close> the error thrown. A callback is a function to a promise: returning a plain
  value is \<open>Resolved\<close>, throwing is \<open>Rejected\<close>, returning a promise is that promise.
\<close>

datatype 'a promise = Resolved 'a | Rejected js_error

text \<open>\<open>kew.fcall(f)\<close>: run \<open>f\<close>; what it throws rejects the promise.\<close>

definition fcall :: "(js_error + 'a promise) \<Rightarrow> 'a promise" where
  "fcall body = (case body of Inl e \<Rightarrow> Rejected e | Inr p \<Rightarrow> p)"

text \<open>\<open>kew.nfcall(fn, args...)\<close>: the node-style callback's error rejects, its data resolves.\<close>

definition nfcall :: "(js_error + 'a) \<Rightarrow> 'a promise" where
  "nfcall outcome = (case outcome of Inl e \<Rightarrow> Rejected e | Inr d \<Rightarrow> Resolved d)"

text \<open>\<open>p.then(f)\<close>: \<open>f\<close> runs on the resolved value; a rejection passes through.\<close>

definition then_p :: "'a promise \<Rightarrow> ('a \<Rightarrow> 'b promise) \<Rightarrow> 'b promise" where
  "then_p p f = (case p of Resolved v \<Rightarrow> f v | Rejected e \<Rightarrow> Rejected e)"

text \<open>\<open>p.fail(f)\<close>: \<open>f\<close> runs on the error of a rejection; a resolved value passes through.\<close>

definition fail_p :: "'a promise \<Rightarrow> (js_error \<Rightarrow> 'a promise) \<Rightarrow> 'a promise" where
  "fail_p p f = (case p of Resolved v \<Rightarrow> Resolved v | Rejected e \<Rightarrow> f e)"

subsection \<open>The world\<close>

text \<open>What is at a path: a regular file with its contents, or a directory.\<close>

datatype node = File string | Dir

text \<open>
  The exports of a loaded metadata record. The record's schema is three string fields,
  each of which may be absent (\<open>undefined\<close> in JavaScript, \<open>None\<close> here).
\<close>

record jsmodule =
  location :: "string option"
  platform :: "string option"
  arch :: "string option"

text \<open>
  \<^item> \<open>env\<close> is \<open>process.env\<close>; \<open>process_platform\<close> and \<open>process_arch\<close> are
    \<open>process.platform\<close> and \<open>process.arch\<close>;
  \<^item> \<open>helper_version\<close> is \<open>helper.version\<close>, the expected version constant that
    lib/phantomjs.js exports;
  \<^item> \<open>dirname\<close> is \<open>__dirname\<close>, the module-level \<open>libPath\<close>;
  \<^item> \<open>fs\<close> answers an access to a path: the error of the failed access, or the node there;
    \<open>write_error\<close> is the error with which a write to a path fails, if it does;
  \<^item> \<open>execFile\<close> is what Node hands to the callback of \<open>cp.execFile(file, args)\<close> once
    the child has ended: the error (it could not be spawned, or exited non-zero), or its
    standard output. A child that never ends never calls back: such a run is not
    described;
  \<^item> \<open>sha256_hex\<close> is the hex SHA-256 digest that hasha computes of a file's contents;
  \<^item> \<open>path_dirname\<close>, \<open>path_resolve\<close> and \<open>path_join\<close> are Node's path functions;
  \<^item> \<open>resolve_module\<close> is the file that \<open>require\<close> finds for a request, if any, and
    \<open>js_eval\<close> is what evaluating a module's source gives: the error thrown, or its
    exports;
  \<^item> \<open>module_cache\<close> is \<open>require.cache\<close>: the exports of the files that the process
    has loaded so far, by file name.
\<close>

record world =
  env :: "string \<rightharpoonup> string"
  process_platform :: string
  process_arch :: string
  helper_version :: string
  dirname :: string
  fs :: "string \<Rightarrow> js_error + node"
  write_error :: "string \<rightharpoonup> js_error"
  execFile :: "string \<Rightarrow> string list \<Rightarrow> js_error + string"
  sha256_hex :: "string \<Rightarrow> string"
  path_dirname :: "string \<Rightarrow> string"
  path_resolve :: "string \<Rightarrow> string \<Rightarrow> string"
  path_join :: "string \<Rightarrow> string \<Rightarrow> string"
  resolve_module :: "string \<rightharpoonup> string"
  js_eval :: "string \<Rightarrow> js_error + jsmodule"
  module_cache :: "string \<rightharpoonup> jsmodule"

subsection \<open>The target platform and architecture\<close>

text \<open>
  \<open>process.env.NAME || fallback\<close>: an unset variable is \<open>undefined\<close> and a variable set
  to the empty string is the empty string; both are falsy, so both give the fallback.
\<close>

definition env_or :: "world \<Rightarrow> string \<Rightarrow> string \<Rightarrow> string" where
  "env_or w name fallback =
     (case env w name of
        None \<Rightarrow> fallback
      | Some v \<Rightarrow> if v \<noteq> [] then v else fallback)"

definition getTargetPlatform :: "world \<Rightarrow> string" where
  "getTargetPlatform w = env_or w ''PHANTOMJS_PLATFORM'' (process_platform w)"

definition getTargetArch :: "world \<Rightarrow> string" where
  "getTargetArch w = env_or w ''PHANTOMJS_ARCH'' (process_arch w)"

subsection \<open>The download table\<close>

record download_spec =
  url :: string
  checksum :: string

definition getDownloadSpec :: "world \<Rightarrow> download_spec option" where
  "getDownloadSpec w =
     (let platform = getTargetPlatform w;
          arch = getTargetArch w
      in if platform = ''linux'' \<and> arch = ''arm64'' then
           Some \<lparr>url = ''http://10.0.6.161/phantomjs-'' @ helper_version w @ ''-linux-aarch64.zip'',
                 checksum = ''ea671a9c23d7a0cdc7292889e2ac2d24365f3a99d106362a727346af3bfa9017''\<rparr>
         else if platform = ''darwin'' then
           Some \<lparr>url = ''https://github.com/Medium/phantomjs/releases/download/v2.1.1/phantomjs-''
                       @ helper_version w @ ''-macosx.zip'',
                 checksum = ''538cf488219ab27e309eafc629e2bcee9976990fe90b1ec334f541779150f8c1''\<rparr>
         else None)"

subsection \<open>The version check\<close>

text \<open>
  \<open>String.prototype.trim\<close> removes white space and line terminators from both ends;
  below 256 these are the code units 9 to 13, 32 and 160.
\<close>

definition is_js_space :: "char \<Rightarrow> bool" where
  "is_js_space c = (c \<in> {CHR 0x09, CHR 0x0A, CHR 0x0B, CHR 0x0C, CHR 0x0D, CHR 0x20, CHR 0xA0})"

definition trim :: "string \<Rightarrow> string" where
  "trim s = rev (dropWhile is_js_space (rev (dropWhile is_js_space s)))"

definition checkPhantomjsVersion :: "world \<Rightarrow> string \<Rightarrow> bool promise" where
  "checkPhantomjsVersion w phantomPath =
     fail_p
       (then_p (nfcall (execFile w phantomPath [''--version'']))
          (\<lambda>stdout.
             let version = trim stdout
             in if helper_version w = version then Resolved True else Resolved False))
       (\<lambda>err. Resolved False)"

subsection \<open>The checksum check\<close>

text \<open>
  \<open>hasha.fromFile(fileName, {algorithm: 'sha256'})\<close> first opens a read stream on the
  file with \<open>fs.createReadStream\<close>, which checks its path argument before it returns
  and throws on a path that contains a NUL character. Otherwise the call returns a
  promise of the hex digest of the file's contents, rejected when the file cannot be
  read. The result is a sum: \<open>Inl\<close> the error thrown by the call itself, \<open>Inr\<close> the
  promise that it returns.
\<close>

definition hasha_fromFile :: "world \<Rightarrow> string \<Rightarrow> js_error + string promise" where
  "hasha_fromFile w fileName =
     (if CHR 0x00 \<in> set fileName then Inl (JsError ''ERR_INVALID_ARG_VALUE'')
      else
        Inr (case fs w fileName of
               Inl e \<Rightarrow> Rejected e
             | Inr Dir \<Rightarrow> Rejected (JsError ''EISDIR'')
             | Inr (File contents) \<Rightarrow> Resolved (sha256_hex w contents)))"

text \<open>
  The source evaluates \<open>hasha.fromFile(...)\<close> as the argument of \<open>kew.resolve\<close>, before
  any promise exists and before \<open>.fail\<close> is attached: what that call throws is thrown by
  \<open>verifyChecksum\<close> to its caller (\<open>Inl\<close>). \<open>kew.resolve\<close> of a promise follows that
  promise.
\<close>

definition verifyChecksum :: "world \<Rightarrow> string \<Rightarrow> string \<Rightarrow> js_error + bool promise" where
  "verifyChecksum w fileName chk =
     (case hasha_fromFile w fileName of
        Inl e \<Rightarrow> Inl e
      | Inr p \<Rightarrow>
          Inr (fail_p
                 (then_p p (\<lambda>hash. let result = (chk = hash) in Resolved result))
                 (\<lambda>err. Resolved False)))"

subsection \<open>The probe of an existing install\<close>

text \<open>
  \<open>require(request)\<close> finds the module's file. When the process has loaded that file
  before, the call returns the exports in the cache and reads nothing. Otherwise it reads
  the file and evaluates it; each step may throw. \<open>require\<close> is what the call returns or
  throws; \<open>after_require\<close> is the world that it leaves: a module that loaded is in the
  cache, a module whose load threw is not.
\<close>

definition require :: "world \<Rightarrow> string \<Rightarrow> js_error + jsmodule" where
  "require w request =
     (case resolve_module w request of
        None \<Rightarrow> Inl (JsError ''MODULE_NOT_FOUND'')
      | Some file \<Rightarrow>
          (case module_cache w file of
             Some m \<Rightarrow> Inr m
           | None \<Rightarrow>
               (case fs w file of
                  Inl e \<Rightarrow> Inl e
                | Inr Dir \<Rightarrow> Inl (JsError ''EISDIR'')
                | Inr (File src) \<Rightarrow> js_eval w src)))"

definition after_require :: "world \<Rightarrow> string \<Rightarrow> world" where
  "after_require w request =
     (case resolve_module w request of
        None \<Rightarrow> w
      | Some file \<Rightarrow>
          (case require w request of
             Inl e \<Rightarrow> w
           | Inr m \<Rightarrow> w\<lparr>module_cache := (module_cache w)(file \<mapsto> m)\<rparr>))"

text \<open>\<open>fs.statSync(p)\<close> returns the (truthy) stats of what is at \<open>p\<close>, or throws.\<close>

definition statSync :: "world \<Rightarrow> string \<Rightarrow> js_error + node" where
  "statSync w p = fs w p"

definition findValidPhantomJsBinary :: "world \<Rightarrow> string \<Rightarrow> jsval promise" where
  "findValidPhantomJsBinary w libPath =
     fail_p
       (fcall
          (case require w libPath of
             Inl e \<Rightarrow> Inl e
           | Inr libModule \<Rightarrow>
               (case location libModule of
                  None \<Rightarrow> Inr (Resolved (JBool False))
                | Some loc \<Rightarrow>
                    if loc \<noteq> [] \<and>
                       Some (getTargetPlatform w) = platform libModule \<and>
                       Some (getTargetArch w) = arch libModule
                    then
                      (let resolvedLocation = path_resolve w (path_dirname w libPath) loc
                       in case statSync w resolvedLocation of
                            Inl e \<Rightarrow> Inl e
                          | Inr stats \<Rightarrow>
                              Inr (then_p (checkPhantomjsVersion w resolvedLocation)
                                     (\<lambda>matches.
                                        if matches then Resolved (JString resolvedLocation)
                                        else Resolved JUndefined)))
                    else Inr (Resolved (JBool False)))))
       (\<lambda>err. Resolved (JBool False))"

text \<open>The world that a probe leaves: of what these functions read, the probe changes the
  module cache only, by its call of \<open>require\<close>.\<close>

definition after_probe :: "world \<Rightarrow> string \<Rightarrow> world" where
  "after_probe w libPath = after_require w libPath"

subsection \<open>The metadata writer\<close>

abbreviation dquote :: char where
  "dquote \<equiv> CHR 0x22"

abbreviation backslash :: char where
  "backslash \<equiv> CHR 0x5C"

abbreviation newline :: char where
  "newline \<equiv> CHR 0x0A"

abbreviation creturn :: char where
  "creturn \<equiv> CHR 0x0D"

text \<open>\<open>location.replace(/\\/g, '\\\\')\<close>: every backslash becomes two.\<close>

fun replace_backslashes :: "string \<Rightarrow> string" where
  "replace_backslashes [] = []"
| "replace_backslashes (c # cs) =
     (if c = backslash then [backslash, backslash] else [c]) @ replace_backslashes cs"

text \<open>The character class \<open>[a-zA-Z0-9]\<close> and the test of the regular expression
  \<open>/^[a-zA-Z0-9]*$/\<close>: from the start, characters of the class up to the end of the input.\<close>

definition alnum_class :: "char \<Rightarrow> bool" where
  "alnum_class c =
     ((CHR ''a'' \<le> c \<and> c \<le> CHR ''z'') \<or>
      (CHR ''A'' \<le> c \<and> c \<le> CHR ''Z'') \<or>
      (CHR ''0'' \<le> c \<and> c \<le> CHR ''9''))"

fun test_alnum :: "string \<Rightarrow> bool" where
  "test_alnum [] = True"
| "test_alnum (c # cs) = (alnum_class c \<and> test_alnum cs)"

text \<open>\<open>fs.writeFileSync(file, data)\<close> throws, or leaves a file with this data at the path.\<close>

definition writeFileSync :: "world \<Rightarrow> string \<Rightarrow> string \<Rightarrow> js_error + world" where
  "writeFileSync w file data =
     (case write_error w file of
        Some e \<Rightarrow> Inl e
      | None \<Rightarrow> Inr (w\<lparr>fs := (fs w)(file := Inr (File data))\<rparr>))"

definition writeLocationFile :: "world \<Rightarrow> string \<Rightarrow> js_error + world" where
  "writeLocationFile w loc =
     (let loc' = (if getTargetPlatform w = ''win32'' then replace_backslashes loc else loc);
          platform = getTargetPlatform w;
          arch = getTargetArch w;
          contents = ''module.exports.location = '' @ [dquote] @ loc' @ [dquote, newline];
          contents' =
            (if test_alnum platform \<and> test_alnum arch then
               contents @
               ''module.exports.platform = '' @ [dquote] @ getTargetPlatform w @ [dquote, newline] @
               ''module.exports.arch = '' @ [dquote] @ getTargetArch w @ [dquote, newline]
             else contents)
      in writeFileSync w (path_join w (dirname w) ''location.js'') contents')"

subsection \<open>Reloading a written record\<close>

text \<open>
  The written record is JavaScript source, and \<open>require\<close> evaluates it. What follows
  reads the statements that the writer emits, \<open>module.exports.NAME = "LITERAL"\<close> and a
  line feed, by the rules of a double-quoted string literal: the literal ends at the
  first unescaped double quote, a line terminator inside it is a syntax error, and a
  backslash starts an escape sequence. The single-character escapes are read; the hex,
  unicode and digit escapes and the line continuation are outside what is read, as is
  every other program (\<open>None\<close>).
\<close>

definition escape_char :: "char \<Rightarrow> char option" where
  "escape_char e =
     (if e = CHR ''b'' then Some (CHR 0x08)
      else if e = CHR ''t'' then Some (CHR 0x09)
      else if e = CHR ''n'' then Some (CHR 0x0A)
      else if e = CHR ''v'' then Some (CHR 0x0B)
      else if e = CHR ''f'' then Some (CHR 0x0C)
      else if e = CHR ''r'' then Some (CHR 0x0D)
      else if e = CHR ''x'' \<or> e = CHR ''u'' \<or> (CHR ''0'' \<le> e \<and> e \<le> CHR ''9'') \<or>
              e = newline \<or> e = creturn then None
      else Some e)"

text \<open>The input starts after the opening quote; the result is the string's value and
  the input after the closing quote.\<close>

fun read_literal :: "string \<Rightarrow> (string \<times> string) option" where
  "read_literal [] = None"
| "read_literal (c # cs) =
     (if c = dquote then Some ([], cs)
      else if c = newline \<or> c = creturn then None
      else if c = backslash then
        (case cs of
           [] \<Rightarrow> None
         | e # cs' \<Rightarrow>
             (case escape_char e of
                None \<Rightarrow> None
              | Some v \<Rightarrow>
                  (case read_literal cs' of
                     None \<Rightarrow> None
                   | Some (s, rest) \<Rightarrow> Some (v # s, rest))))
      else
        (case read_literal cs of
           None \<Rightarrow> None
         | Some (s, rest) \<Rightarrow> Some (c # s, rest)))"

fun strip_prefix :: "string \<Rightarrow> string \<Rightarrow> string option" where
  "strip_prefix [] s = Some s"
| "strip_prefix (p # ps) [] = None"
| "strip_prefix (p # ps) (c # cs) = (if p = c then strip_prefix ps cs else None)"

text \<open>One statement: the field's name, the literal's value and the input after the line feed.\<close>

definition read_stmt :: "string \<Rightarrow> (string \<times> string \<times> string) option" where
  "read_stmt src =
     (case strip_prefix ''module.exports.'' src of
        None \<Rightarrow> None
      | Some s1 \<Rightarrow>
          (case strip_prefix ('' = '' @ [dquote]) (dropWhile alnum_class s1) of
             None \<Rightarrow> None
           | Some s2 \<Rightarrow>
               (case read_literal s2 of
                  None \<Rightarrow> None
                | Some (v, s3) \<Rightarrow>
                    (case s3 of
                       [] \<Rightarrow> None
                     | c # rest \<Rightarrow>
                         if c = newline then Some (takeWhile alnum_class s1, v, rest)
                         else None))))"

definition assign_field :: "jsmodule \<Rightarrow> string \<Rightarrow> string \<Rightarrow> jsmodule option" where
  "assign_field m name v =
     (if name = ''location'' then Some (m\<lparr>location := Some v\<rparr>)
      else if name = ''platform'' then Some (m\<lparr>platform := Some v\<rparr>)
      else if name = ''arch'' then Some (m\<lparr>arch := Some v\<rparr>)
      else None)"

lemma read_literal_shorter:
  "read_literal s = Some (v, rest) \<Longrightarrow> length rest < length s"
proof (induction s arbitrary: v rest rule: read_literal.induct)
  case 1
  then show ?case by simp
next
  case (2 c cs)
  show ?case
  proof (cases "c = dquote")
    case True
    with "2.prems" show ?thesis by simp
  next
    case nq: False
    show ?thesis
    proof (cases "c = backslash")
      case True
      with nq "2.prems" obtain e cs' x s' where
        cs: "cs = e # cs'" and e: "escape_char e = Some x"
        and r: "read_literal cs' = Some (s', rest)"
        by (auto split: list.splits option.splits if_splits)
      from "2.IH"(1) [OF nq _ True cs e r] True have "length rest < length cs'"
        by simp
      with cs show ?thesis by simp
    next
      case False
      with nq "2.prems" obtain s' where
        nl: "\<not> (c = newline \<or> c = creturn)" and r: "read_literal cs = Some (s', rest)"
        by (auto split: option.splits if_splits)
      from "2.IH"(2) [OF nq nl False r] have "length rest < length cs" .
      then show ?thesis by simp
    qed
  qed
qed

lemma strip_prefix_length:
  "strip_prefix p s = Some r \<Longrightarrow> length r \<le> length s"
  by (induction p s rule: strip_prefix.induct) (auto split: if_splits)

lemma read_stmt_shorter:
  assumes "read_stmt src = Some (name, v, rest)"
  shows "length rest < length src"
proof -
  from assms obtain s1 s2 s3 where
    a: "strip_prefix ''module.exports.'' src = Some s1"
    and b: "strip_prefix ('' = '' @ [dquote]) (dropWhile alnum_class s1) = Some s2"
    and c: "read_literal s2 = Some (v, s3)"
    and d: "s3 = newline # rest"
    unfolding read_stmt_def
    by (auto split: option.splits list.splits if_splits)
  have "length s1 \<le> length src"
    using a by (rule strip_prefix_length)
  moreover have "length s2 \<le> length (dropWhile alnum_class s1)"
    using b by (rule strip_prefix_length)
  moreover have "length (dropWhile alnum_class s1) \<le> length s1"
    by (rule length_dropWhile_le)
  moreover have "length s3 < length s2"
    using c by (rule read_literal_shorter)
  ultimately show ?thesis
    using d by simp
qed

text \<open>The statements of a file in order, each assigning one field of the exports.\<close>

function read_stmts :: "string \<Rightarrow> jsmodule \<Rightarrow> jsmodule option" where
  "read_stmts src m =
     (if src = [] then Some m
      else
        (case read_stmt src of
           None \<Rightarrow> None
         | Some (name, v, rest) \<Rightarrow>
             (case assign_field m name v of
                None \<Rightarrow> None
              | Some m' \<Rightarrow> read_stmts rest m')))"
  by pat_completeness auto
termination
  by (relation "measure (\<lambda>(src, m). length src)") (auto dest: read_stmt_shorter)

declare read_stmts.simps [simp del]

text \<open>A module starts with empty exports.\<close>

definition read_record :: "string \<Rightarrow> jsmodule option" where
  "read_record src = read_stmts src \<lparr>location = None, platform = None, arch = None\<rparr>"

text \<open>An evaluator that loads exactly the records that are read, and throws otherwise.\<close>

definition eval_record :: "string \<Rightarrow> js_error + jsmodule" where
  "eval_record src =
     (case read_record src of
        None \<Rightarrow> Inl (JsError ''SyntaxError'')
      | Some m \<Rightarrow> Inr m)"

text \<open>The round trip: write the record, then probe in the world that the write leaves.\<close>

definition writeThenProbe :: "world \<Rightarrow> string \<Rightarrow> string \<Rightarrow> js_error + jsval promise" where
  "writeThenProbe w loc libPath =
     (case writeLocationFile w loc of
        Inl e \<Rightarrow> Inl e
      | Inr w' \<Rightarrow> Inr (findValidPhantomJsBinary w' libPath))"

text \<open>Write the record, then load it in the world that the write leaves.\<close>

definition writeThenLoad :: "world \<Rightarrow> string \<Rightarrow> string \<Rightarrow> js_error + jsmodule" where
  "writeThenLoad w loc libPath =
     (case writeLocationFile w loc of
        Inl e \<Rightarrow> Inl e
      | Inr w' \<Rightarrow> require w' libPath)"

subsection \<open>The vocabulary of the properties\<close>

text \<open>The scheme of a URL is what stands before the first colon; its host is what stands
  between the two slashes after that colon and the next slash.\<close>

definition url_scheme :: "string \<Rightarrow> string" where
  "url_scheme u = takeWhile (\<lambda>c. c \<noteq> CHR '':'') u"

definition url_host :: "string \<Rightarrow> string" where
  "url_host u = takeWhile (\<lambda>c. c \<noteq> CHR ''/'') (drop 3 (dropWhile (\<lambda>c. c \<noteq> CHR '':'') u))"

definition is_hex_digit :: "char \<Rightarrow> bool" where
  "is_hex_digit c = (c \<in> set ''0123456789abcdefABCDEF'')"

subsection \<open>Example worlds\<close>

text \<open>
  Path functions for the examples: they agree with Node's on a directory without a
  trailing separator and a path without \<open>.\<close> and \<open>..\<close> segments.
\<close>

definition simple_dirname :: "string \<Rightarrow> string" where
  "simple_dirname p = rev (drop 1 (dropWhile (\<lambda>c. c \<noteq> CHR ''/'') (rev p)))"

definition simple_resolve :: "string \<Rightarrow> string \<Rightarrow> string" where
  "simple_resolve d p = (if take 1 p = ''/'' then p else d @ ''/'' @ p)"

definition simple_join :: "string \<Rightarrow> string \<Rightarrow> string" where
  "simple_join d p = d @ ''/'' @ p"

text \<open>
  A Linux x64 host with the package in \<open>/pkg\<close>, a PhantomJS 2.1.1 binary in
  \<open>/pkg/lib/phantom/bin\<close>, a downloaded archive whose contents are \<open>abc\<close>, and no
  metadata record yet. The process has loaded no module.
\<close>

definition linux_x64 :: world where
  "linux_x64 =
     \<lparr>env = Map.empty, process_platform = ''linux'', process_arch = ''x64'',
      helper_version = ''2.1.1'', dirname = ''/pkg/lib'',
      fs = (\<lambda>p. if p = ''/pkg/lib/phantom/bin/phantomjs'' then Inr (File ''ELF'')
                else if p = ''/tmp/phantomjs.zip'' then Inr (File ''abc'')
                else Inl (JsError ''ENOENT'')),
      write_error = Map.empty,
      execFile = (\<lambda>p args. if p = ''/pkg/lib/phantom/bin/phantomjs'' \<and> args = [''--version'']
                          then Inr (''2.1.1'' @ [newline]) else Inl (JsError ''ENOENT'')),
      sha256_hex = (\<lambda>s. if s = ''abc''
                        then ''ba7816bf8f01cfea414140de5dae2223b00361a396177a9cb410ff61f20015ad''
                        else ''e3b0c44298fc1c149afbf4c8996fb92427ae41e4649b934ca495991b7852b855''),
      path_dirname = simple_dirname, path_resolve = simple_resolve, path_join = simple_join,
      resolve_module = [''/pkg/lib/location'' \<mapsto> ''/pkg/lib/location.js''],
      js_eval = eval_record, module_cache = Map.empty\<rparr>"

text \<open>The text of a record, as the writer lays it out.\<close>

definition record_text :: "string \<Rightarrow> string \<Rightarrow> string \<Rightarrow> string" where
  "record_text loc p a =
     ''module.exports.location = '' @ [dquote] @ loc @ [dquote, newline] @
     ''module.exports.platform = '' @ [dquote] @ p @ [dquote, newline] @
     ''module.exports.arch = '' @ [dquote] @ a @ [dquote, newline]"

text \<open>The same host with a record in place, written for the given platform.\<close>

definition installed_for :: "string \<Rightarrow> world" where
  "installed_for p =
     linux_x64\<lparr>fs := (fs linux_x64)
       (''/pkg/lib/location.js'' := Inr (File (record_text ''phantom/bin/phantomjs'' p ''x64'')))\<rparr>"

text \<open>A file name with a NUL character in it.\<close>

definition nul_path :: string where
  "nul_path = ''/tmp/phantomjs'' @ [CHR 0x00] @ ''.zip''"

text \<open>A host whose environment sets the variables that the specification names, and sets
  the variables that the code reads to the empty string.\<close>

definition spec_named_env :: world where
  "spec_named_env =
     linux_x64\<lparr>env := [''TARGET_PLATFORM'' \<mapsto> ''win32'', ''TARGET_ARCHITECTURE'' \<mapsto> ''ia32'',
                       ''PHANTOMJS_PLATFORM'' \<mapsto> [], ''PHANTOMJS_ARCH'' \<mapsto> []]\<rparr>"

text \<open>A Linux host whose binary lies in a directory with a backslash in its name,
  \<open>/opt/my\tools\<close>.\<close>

definition backslash_location :: string where
  "backslash_location = ''/opt/my'' @ [backslash] @ ''tools/phantomjs''"

definition linux_backslash :: world where
  "linux_backslash =
     linux_x64\<lparr>fs := (fs linux_x64)(backslash_location := Inr (File ''ELF'')),
               execFile := (\<lambda>p args. if p = backslash_location \<and> args = [''--version'']
                                      then Inr (''2.1.1'' @ [newline])
                                      else Inl (JsError ''ENOENT''))\<rparr>"

text \<open>A Windows x64 host with the package in \<open>C:\pkg\<close>.\<close>

definition windows_lib :: string where
  "windows_lib = ''C:'' @ [backslash] @ ''pkg'' @ [backslash] @ ''lib''"

definition windows_location :: string where
  "windows_location = ''phantom'' @ [backslash] @ ''bin'' @ [backslash] @ ''phantomjs.exe''"

definition win32_x64 :: world where
  "win32_x64 =
     \<lparr>env = Map.empty, process_platform = ''win32'', process_arch = ''x64'',
      helper_version = ''2.1.1'', dirname = windows_lib,
      fs = (\<lambda>p. if p = windows_lib @ [backslash] @ windows_location then Inr (File ''MZ'')
                else Inl (JsError ''ENOENT'')),
      write_error = Map.empty,
      execFile = (\<lambda>p args. if p = windows_lib @ [backslash] @ windows_location \<and>
                             args = [''--version'']
                          then Inr (''2.1.1'' @ [creturn, newline])
                          else Inl (JsError ''ENOENT'')),
      sha256_hex = (\<lambda>s. ''e3b0c44298fc1c149afbf4c8996fb92427ae41e4649b934ca495991b7852b855''),
      path_dirname = (\<lambda>p. rev (drop 1 (dropWhile (\<lambda>c. c \<noteq> backslash) (rev p)))),
      path_resolve = (\<lambda>d p. d @ [backslash] @ p),
      path_join = (\<lambda>d p. d @ [backslash] @ p),
      resolve_module = [windows_lib @ [backslash] @ ''location''
                          \<mapsto> windows_lib @ [backslash] @ ''location.js''],
      js_eval = eval_record, module_cache = Map.empty\<rparr>"

text \<open>The Windows host after the location \<open>phantom\bin\phantomjs.exe\<close> is written.\<close>

definition win32_installed :: world where
  "win32_installed =
     win32_x64\<lparr>fs := (fs win32_x64)
       (windows_lib @ [backslash] @ ''location.js'' := Inr (File
          (record_text
             (''phantom'' @ [backslash, backslash] @ ''bin'' @ [backslash, backslash] @
              ''phantomjs.exe'')
             ''win32'' ''x64'')))\<rparr>"

text \<open>The equations that evaluate the functions above on an example world.\<close>

lemmas world_simps =
  linux_x64_def installed_for_def record_text_def
  simple_dirname_def simple_resolve_def simple_join_def
  getTargetPlatform_def getTargetArch_def env_or_def

lemmas probe_simps =
  eval_record_def read_record_def read_stmts.simps read_stmt_def assign_field_def
  alnum_class_def escape_char_def findValidPhantomJsBinary_def require_def statSync_def
  checkPhantomjsVersion_def fcall_def nfcall_def then_p_def fail_p_def trim_def is_js_space_def

section \<open>Properties\<close>

subsection \<open>Helper facts\<close>

lemma verifyChecksum_eq:
  "verifyChecksum w fileName chk =
     (if CHR 0x00 \<in> set fileName then Inl (JsError ''ERR_INVALID_ARG_VALUE'')
      else
        Inr (Resolved (case fs w fileName of
                         Inr (File contents) \<Rightarrow> chk = sha256_hex w contents
                       | _ \<Rightarrow> False)))"
  by (simp add: verifyChecksum_def hasha_fromFile_def fail_p_def then_p_def
      split: sum.splits node.splits)

lemma checkPhantomjsVersion_eq:
  "checkPhantomjsVersion w phantomPath =
     Resolved (case execFile w phantomPath [''--version''] of
                 Inr out \<Rightarrow> helper_version w = trim out
               | Inl e \<Rightarrow> False)"
  by (simp add: checkPhantomjsVersion_def nfcall_def fail_p_def then_p_def split: sum.splits)

lemma test_alnum_iff: "test_alnum s \<longleftrightarrow> (\<forall>c \<in> set s. alnum_class c)"
  by (induction s) auto

subsection \<open>The checksum check\<close>

text \<open>
  For a file name without a NUL character \<open>verifyChecksum\<close> returns a promise that
  resolves to true exactly when the name holds a readable file whose SHA-256 hex digest
  equals the expected checksum, and to false when the file cannot be read; the promise
  never rejects.
\<close>

lemma verifyChecksum_nul_free:
  assumes "CHR 0x00 \<notin> set fileName"
  shows "(verifyChecksum w fileName chk = Inr (Resolved True) \<longleftrightarrow>
            (\<exists>contents. fs w fileName = Inr (File contents) \<and> sha256_hex w contents = chk))
         \<and> ((\<forall>contents. fs w fileName \<noteq> Inr (File contents)) \<longrightarrow>
              verifyChecksum w fileName chk = Inr (Resolved False))
         \<and> (\<exists>b. verifyChecksum w fileName chk = Inr (Resolved b))"
proof (cases "fs w fileName")
  case (Inl e)
  with assms show ?thesis by (auto simp add: verifyChecksum_eq)
next
  case (Inr n)
  with assms show ?thesis by (cases n) (auto simp add: verifyChecksum_eq)
qed

lemma verifyChecksum_examples:
  "verifyChecksum linux_x64 ''/tmp/phantomjs.zip''
     ''ba7816bf8f01cfea414140de5dae2223b00361a396177a9cb410ff61f20015ad'' = Inr (Resolved True)
   \<and> verifyChecksum linux_x64 ''/tmp/missing.zip''
     ''ba7816bf8f01cfea414140de5dae2223b00361a396177a9cb410ff61f20015ad'' = Inr (Resolved False)"
  by (simp add: verifyChecksum_eq linux_x64_def)

text \<open>
  C1 says that for every file path \<open>verifyChecksum\<close> resolves to true exactly when the
  file's SHA-256 hex digest equals the expected checksum, that every read failure
  resolves to false, and that the returned promise never rejects. The code breaks this
  at a file name with a NUL character: no file is read there, and the call of
  \<open>hasha.fromFile\<close> throws before \<open>verifyChecksum\<close> has a promise to return, so the error
  reaches the caller instead of the value false.
\<close>

theorem C1_verifyChecksum_throws:
  "fs linux_x64 nul_path = Inl (JsError ''ENOENT'')
   \<and> verifyChecksum linux_x64 nul_path
        ''ba7816bf8f01cfea414140de5dae2223b00361a396177a9cb410ff61f20015ad''
       = Inl (JsError ''ERR_INVALID_ARG_VALUE'')
   \<and> verifyChecksum linux_x64 nul_path
        ''ba7816bf8f01cfea414140de5dae2223b00361a396177a9cb410ff61f20015ad''
       \<noteq> Inr (Resolved False)"
  by (simp add: verifyChecksum_eq linux_x64_def nul_path_def)

subsection \<open>The download table\<close>

text \<open>
  C2. For the target (linux, arm64) \<open>getDownloadSpec\<close> returns a URL whose scheme is
  plain http and whose host is the address 10.0.6.161; for the target platform darwin it
  returns an https URL of a GitHub release.
\<close>

theorem C2_linux_arm64_url:
  "(getTargetPlatform w = ''linux'' \<and> getTargetArch w = ''arm64'' \<longrightarrow>
      (\<exists>d. getDownloadSpec w = Some d
         \<and> url d = ''http://10.0.6.161/phantomjs-'' @ helper_version w @ ''-linux-aarch64.zip''
         \<and> url_scheme (url d) = ''http'' \<and> url_scheme (url d) \<noteq> ''https''
         \<and> url_host (url d) = ''10.0.6.161''))
   \<and> (getTargetPlatform w' = ''darwin'' \<longrightarrow>
      (\<exists>d. getDownloadSpec w' = Some d
         \<and> url d = ''https://github.com/Medium/phantomjs/releases/download/v2.1.1/phantomjs-''
                   @ helper_version w' @ ''-macosx.zip''
         \<and> url_scheme (url d) = ''https'' \<and> url_host (url d) = ''github.com''))"
  by (simp add: getDownloadSpec_def url_scheme_def url_host_def)

theorem C2_linux_arm64_url_witness:
  "getDownloadSpec (linux_x64\<lparr>process_arch := ''arm64''\<rparr>) =
     Some \<lparr>url = ''http://10.0.6.161/phantomjs-2.1.1-linux-aarch64.zip'',
           checksum = ''ea671a9c23d7a0cdc7292889e2ac2d24365f3a99d106362a727346af3bfa9017''\<rparr>
   \<and> url_host ''http://10.0.6.161/phantomjs-2.1.1-linux-aarch64.zip'' = ''10.0.6.161''
   \<and> (\<exists>d. getDownloadSpec (linux_x64\<lparr>process_platform := ''darwin''\<rparr>) = Some d
          \<and> url_scheme (url d) = ''https'' \<and> url_host (url d) = ''github.com'')"
proof -
  have a: "getTargetPlatform (linux_x64\<lparr>process_arch := ''arm64''\<rparr>) = ''linux''
           \<and> getTargetArch (linux_x64\<lparr>process_arch := ''arm64''\<rparr>) = ''arm64''"
    by (simp add: world_simps)
  have b: "getTargetPlatform (linux_x64\<lparr>process_platform := ''darwin''\<rparr>) = ''darwin''"
    by (simp add: world_simps)
  have c: "getDownloadSpec (linux_x64\<lparr>process_arch := ''arm64''\<rparr>) =
     Some \<lparr>url = ''http://10.0.6.161/phantomjs-2.1.1-linux-aarch64.zip'',
           checksum = ''ea671a9c23d7a0cdc7292889e2ac2d24365f3a99d106362a727346af3bfa9017''\<rparr>"
    by (simp add: getDownloadSpec_def world_simps)
  note t = C2_linux_arm64_url [of "linux_x64\<lparr>process_arch := ''arm64''\<rparr>"
      "linux_x64\<lparr>process_platform := ''darwin''\<rparr>"]
  from t a have l: "\<exists>d. getDownloadSpec (linux_x64\<lparr>process_arch := ''arm64''\<rparr>) = Some d
      \<and> url_host (url d) = ''10.0.6.161''"
    by blast
  from t b have m: "\<exists>d. getDownloadSpec (linux_x64\<lparr>process_platform := ''darwin''\<rparr>) = Some d
      \<and> url_scheme (url d) = ''https'' \<and> url_host (url d) = ''github.com''"
    by blast
  from l c have "url_host ''http://10.0.6.161/phantomjs-2.1.1-linux-aarch64.zip'' = ''10.0.6.161''"
    by auto
  with c m show ?thesis
    by blast
qed

text \<open>
  C3. Whenever \<open>getDownloadSpec\<close> returns a download spec, its URL is not empty and its
  checksum is a string of exactly 64 hexadecimal digits.
\<close>

theorem C3_spec_well_formed:
  "getDownloadSpec w = Some d \<Longrightarrow>
     url d \<noteq> [] \<and> length (checksum d) = 64 \<and> (\<forall>c \<in> set (checksum d). is_hex_digit c)"
  by (auto simp add: getDownloadSpec_def Let_def is_hex_digit_def split: if_splits)

theorem C3_spec_well_formed_witness:
  "getDownloadSpec (linux_x64\<lparr>process_platform := ''darwin''\<rparr>) =
     Some \<lparr>url = ''https://github.com/Medium/phantomjs/releases/download/v2.1.1/phantomjs-2.1.1-macosx.zip'',
           checksum = ''538cf488219ab27e309eafc629e2bcee9976990fe90b1ec334f541779150f8c1''\<rparr>
   \<and> length ''538cf488219ab27e309eafc629e2bcee9976990fe90b1ec334f541779150f8c1'' = 64
   \<and> list_all is_hex_digit ''538cf488219ab27e309eafc629e2bcee9976990fe90b1ec334f541779150f8c1''"
proof -
  have s: "getDownloadSpec (linux_x64\<lparr>process_platform := ''darwin''\<rparr>) =
     Some \<lparr>url = ''https://github.com/Medium/phantomjs/releases/download/v2.1.1/phantomjs-2.1.1-macosx.zip'',
           checksum = ''538cf488219ab27e309eafc629e2bcee9976990fe90b1ec334f541779150f8c1''\<rparr>"
    by (simp add: getDownloadSpec_def world_simps)
  from C3_spec_well_formed [OF s] s show ?thesis
    by (simp add: list_all_iff)
qed

text \<open>
  C4. For every target whose platform is not darwin and which is not (linux, arm64),
  \<open>getDownloadSpec\<close> returns null.
\<close>

theorem C4_unsupported_null:
  "getTargetPlatform w \<noteq> ''darwin'' \<Longrightarrow>
   \<not> (getTargetPlatform w = ''linux'' \<and> getTargetArch w = ''arm64'') \<Longrightarrow>
   getDownloadSpec w = None"
  by (auto simp add: getDownloadSpec_def Let_def)

theorem C4_unsupported_null_witness:
  "getTargetPlatform linux_x64 = ''linux'' \<and> getTargetArch linux_x64 = ''x64''
   \<and> getDownloadSpec linux_x64 = None"
proof -
  have a: "getTargetPlatform linux_x64 \<noteq> ''darwin''"
    by (simp add: world_simps)
  have b: "\<not> (getTargetPlatform linux_x64 = ''linux'' \<and> getTargetArch linux_x64 = ''arm64'')"
    by (simp add: world_simps)
  from C4_unsupported_null [OF a b] show ?thesis
    by (simp add: world_simps)
qed

subsection \<open>The target platform and architecture\<close>

text \<open>
  C5, as the code has it. \<open>getTargetPlatform\<close> returns the value of the environment
  variable \<open>PHANTOMJS_PLATFORM\<close> when it is set to a string that is not empty, and
  otherwise the host process's platform; \<open>getTargetArch\<close> returns the value of
  \<open>PHANTOMJS_ARCH\<close> when it is set to a string that is not empty, and otherwise the host
  process's architecture.
\<close>

theorem C5_target_from_env:
  "(\<forall>v. env w ''PHANTOMJS_PLATFORM'' = Some v \<and> v \<noteq> [] \<longrightarrow> getTargetPlatform w = v)
   \<and> (env w ''PHANTOMJS_PLATFORM'' = None \<or> env w ''PHANTOMJS_PLATFORM'' = Some [] \<longrightarrow>
        getTargetPlatform w = process_platform w)
   \<and> (\<forall>v. env w ''PHANTOMJS_ARCH'' = Some v \<and> v \<noteq> [] \<longrightarrow> getTargetArch w = v)
   \<and> (env w ''PHANTOMJS_ARCH'' = None \<or> env w ''PHANTOMJS_ARCH'' = Some [] \<longrightarrow>
        getTargetArch w = process_arch w)"
  by (auto simp add: getTargetPlatform_def getTargetArch_def env_or_def)

theorem C5_target_from_env_witness:
  "getTargetPlatform (linux_x64\<lparr>env := [''PHANTOMJS_PLATFORM'' \<mapsto> ''win32'']\<rparr>) = ''win32''
   \<and> getTargetArch (linux_x64\<lparr>env := [''PHANTOMJS_PLATFORM'' \<mapsto> ''win32'']\<rparr>) = ''x64''"
  using C5_target_from_env [of "linux_x64\<lparr>env := [''PHANTOMJS_PLATFORM'' \<mapsto> ''win32'']\<rparr>"]
  by (simp add: linux_x64_def)

text \<open>
  C5 as the specification states it fails: with \<open>TARGET_PLATFORM\<close> set to \<open>win32\<close> and
  \<open>TARGET_ARCHITECTURE\<close> set to \<open>ia32\<close> on a Linux x64 host, and the variables that the
  code reads set to the empty string, the functions return the host's \<open>linux\<close> and
  \<open>x64\<close>: neither the values of the variables that the specification names, nor the
  (empty) values of the variables that are set.
\<close>

theorem C5_spec_names_counterexample:
  "env spec_named_env ''TARGET_PLATFORM'' = Some ''win32''
   \<and> env spec_named_env ''PHANTOMJS_PLATFORM'' = Some []
   \<and> getTargetPlatform spec_named_env = ''linux''
   \<and> env spec_named_env ''TARGET_ARCHITECTURE'' = Some ''ia32''
   \<and> env spec_named_env ''PHANTOMJS_ARCH'' = Some []
   \<and> getTargetArch spec_named_env = ''x64''"
  by (simp add: spec_named_env_def world_simps)

subsection \<open>The version check\<close>

text \<open>
  C8. For every candidate path, \<open>checkPhantomjsVersion\<close> resolves to true exactly when
  running the binary with \<open>--version\<close> succeeds and its trimmed standard output equals
  the expected version; in every other case (the run fails, or prints something else) it
  resolves to false; it always resolves, so the promise never rejects.
\<close>

theorem C8_checkPhantomjsVersion:
  "(checkPhantomjsVersion w phantomPath = Resolved True \<longleftrightarrow>
      (\<exists>out. execFile w phantomPath [''--version''] = Inr out \<and> trim out = helper_version w))
   \<and> (\<not> (\<exists>out. execFile w phantomPath [''--version''] = Inr out \<and> trim out = helper_version w)
        \<longrightarrow> checkPhantomjsVersion w phantomPath = Resolved False)
   \<and> (\<exists>b. checkPhantomjsVersion w phantomPath = Resolved b)"
  by (cases "execFile w phantomPath [''--version'']") (auto simp add: checkPhantomjsVersion_eq)

theorem C8_checkPhantomjsVersion_witness:
  "checkPhantomjsVersion linux_x64 ''/pkg/lib/phantom/bin/phantomjs'' = Resolved True
   \<and> checkPhantomjsVersion linux_x64 ''/usr/bin/phantomjs'' = Resolved False
   \<and> checkPhantomjsVersion (linux_x64\<lparr>helper_version := ''2.5.0''\<rparr>)
        ''/pkg/lib/phantom/bin/phantomjs'' = Resolved False"
  using C8_checkPhantomjsVersion [of linux_x64 "''/pkg/lib/phantom/bin/phantomjs''"]
    C8_checkPhantomjsVersion [of linux_x64 "''/usr/bin/phantomjs''"]
    C8_checkPhantomjsVersion [of "linux_x64\<lparr>helper_version := ''2.5.0''\<rparr>"
      "''/pkg/lib/phantom/bin/phantomjs''"]
  by (simp add: linux_x64_def trim_def is_js_space_def)

subsection \<open>The probe\<close>

text \<open>What the probe resolves to, case by case.\<close>

lemma findValidPhantomJsBinary_eq:
  "findValidPhantomJsBinary w libPath =
     Resolved
       (case require w libPath of
          Inl e \<Rightarrow> JBool False
        | Inr m \<Rightarrow>
            (case location m of
               None \<Rightarrow> JBool False
             | Some loc \<Rightarrow>
                 if loc \<noteq> [] \<and> Some (getTargetPlatform w) = platform m \<and>
                    Some (getTargetArch w) = arch m
                 then
                   (case fs w (path_resolve w (path_dirname w libPath) loc) of
                      Inl e \<Rightarrow> JBool False
                    | Inr n \<Rightarrow>
                        (case execFile w (path_resolve w (path_dirname w libPath) loc)
                                [''--version''] of
                           Inl e \<Rightarrow> JUndefined
                         | Inr out \<Rightarrow>
                             if helper_version w = trim out
                             then JString (path_resolve w (path_dirname w libPath) loc)
                             else JUndefined))
                 else JBool False))"
  by (simp add: findValidPhantomJsBinary_def statSync_def checkPhantomjsVersion_eq
      fcall_def fail_p_def then_p_def Let_def split: sum.splits option.splits)

text \<open>
  C6. For every record that loads and whose platform or arch field differs from the
  current target (an absent field differs), \<open>findValidPhantomJsBinary\<close> resolves to
  \<open>false\<close>, whatever the file system holds at the recorded location.
\<close>

theorem C6_target_mismatch:
  "require w libPath = Inr m \<Longrightarrow>
   platform m \<noteq> Some (getTargetPlatform w) \<or> arch m \<noteq> Some (getTargetArch w) \<Longrightarrow>
   findValidPhantomJsBinary w libPath = Resolved (JBool False)
   \<and> falsy (JBool False)"
  by (auto simp add: findValidPhantomJsBinary_eq falsy_def split: option.splits)

theorem C6_target_mismatch_witness:
  "fs (installed_for ''darwin'') ''/pkg/lib/phantom/bin/phantomjs'' = Inr (File ''ELF'')
   \<and> getTargetPlatform (installed_for ''darwin'') = ''linux''
   \<and> findValidPhantomJsBinary (installed_for ''darwin'') ''/pkg/lib/location''
       = Resolved (JBool False)"
proof -
  have r: "require (installed_for ''darwin'') ''/pkg/lib/location''
           = Inr \<lparr>location = Some ''phantom/bin/phantomjs'', platform = Some ''darwin'',
                  arch = Some ''x64''\<rparr>"
    by (simp add: world_simps probe_simps)
  have d: "platform \<lparr>location = Some ''phantom/bin/phantomjs'', platform = Some ''darwin'',
                     arch = Some ''x64''\<rparr> \<noteq> Some (getTargetPlatform (installed_for ''darwin''))
           \<or> arch \<lparr>location = Some ''phantom/bin/phantomjs'', platform = Some ''darwin'',
                    arch = Some ''x64''\<rparr> \<noteq> Some (getTargetArch (installed_for ''darwin''))"
    by (simp add: world_simps)
  from C6_target_mismatch [OF r d] show ?thesis
    by (simp add: world_simps)
qed

text \<open>
  C7. For every path, \<open>findValidPhantomJsBinary\<close> resolves, and so never rejects: it
  resolves to a falsy value, or to the location of the loaded record resolved against the
  directory of the path. A record that fails to load, a record without a location and a
  resolved location that is not on disk all give \<open>false\<close>.
\<close>

theorem C7_probe_settles:
  "(\<exists>v. findValidPhantomJsBinary w libPath = Resolved v
      \<and> (falsy v
          \<or> (\<exists>m loc. require w libPath = Inr m \<and> location m = Some loc
                \<and> v = JString (path_resolve w (path_dirname w libPath) loc))))
   \<and> (\<forall>e. require w libPath = Inl e \<longrightarrow>
          findValidPhantomJsBinary w libPath = Resolved (JBool False))
   \<and> (\<forall>m. require w libPath = Inr m \<and> location m = None \<longrightarrow>
          findValidPhantomJsBinary w libPath = Resolved (JBool False))
   \<and> (\<forall>m loc e. require w libPath = Inr m \<and> location m = Some loc
          \<and> fs w (path_resolve w (path_dirname w libPath) loc) = Inl e \<longrightarrow>
          findValidPhantomJsBinary w libPath = Resolved (JBool False))"
  by (auto simp add: findValidPhantomJsBinary_eq falsy_def split: sum.splits option.splits)

theorem C7_probe_settles_witness:
  "findValidPhantomJsBinary (installed_for ''linux'') ''/pkg/lib/location''
     = Resolved (JString ''/pkg/lib/phantom/bin/phantomjs'')
   \<and> findValidPhantomJsBinary linux_x64 ''/pkg/lib/location'' = Resolved (JBool False)
   \<and> findValidPhantomJsBinary linux_x64 ''/pkg/lib/nothing'' = Resolved (JBool False)"
proof -
  have a: "require linux_x64 ''/pkg/lib/location'' = Inl (JsError ''ENOENT'')"
    by (simp add: world_simps require_def)
  have b: "require linux_x64 ''/pkg/lib/nothing'' = Inl (JsError ''MODULE_NOT_FOUND'')"
    by (simp add: world_simps require_def)
  have c: "require (installed_for ''linux'') ''/pkg/lib/location''
           = Inr \<lparr>location = Some ''phantom/bin/phantomjs'', platform = Some ''linux'',
                  arch = Some ''x64''\<rparr>"
    by (simp add: world_simps probe_simps)
  have d: "findValidPhantomJsBinary (installed_for ''linux'') ''/pkg/lib/location''
           \<noteq> Resolved (JBool False)
         \<and> findValidPhantomJsBinary (installed_for ''linux'') ''/pkg/lib/location''
           \<noteq> Resolved JUndefined
         \<and> findValidPhantomJsBinary (installed_for ''linux'') ''/pkg/lib/location''
           \<noteq> Resolved (JString [])"
    by (simp add: world_simps probe_simps)
  from C7_probe_settles [of "installed_for ''linux''" "''/pkg/lib/location''"] c d
  have "findValidPhantomJsBinary (installed_for ''linux'') ''/pkg/lib/location''
     = Resolved (JString (path_resolve (installed_for ''linux'')
          (path_dirname (installed_for ''linux'') ''/pkg/lib/location'') ''phantom/bin/phantomjs''))"
    by (auto simp add: falsy_def elim!: truthy.elims)
  moreover from C7_probe_settles [of linux_x64 "''/pkg/lib/location''"] a
  have "findValidPhantomJsBinary linux_x64 ''/pkg/lib/location'' = Resolved (JBool False)"
    by blast
  moreover from C7_probe_settles [of linux_x64 "''/pkg/lib/nothing''"] b
  have "findValidPhantomJsBinary linux_x64 ''/pkg/lib/nothing'' = Resolved (JBool False)"
    by blast
  ultimately show ?thesis
    by (simp add: world_simps)
qed

subsection \<open>The metadata writer\<close>

text \<open>
  C10. For every location, when the target platform or the target architecture contains
  a character outside \<open>[a-zA-Z0-9]\<close>, the text that \<open>writeLocationFile\<close> writes is the
  location line alone, without the platform and arch lines; when both consist of such
  characters only (the empty string included), the location line is followed by the
  platform line and the arch line. Whenever the write succeeds, the file starts with the
  location line.
\<close>

theorem C10_fields_written:
  "(let loc' = (if getTargetPlatform w = ''win32'' then replace_backslashes loc else loc);
        file = path_join w (dirname w) ''location.js'';
        locline = ''module.exports.location = '' @ [dquote] @ loc' @ [dquote, newline]
    in ((\<exists>c \<in> set (getTargetPlatform w). \<not> alnum_class c) \<or>
        (\<exists>c \<in> set (getTargetArch w). \<not> alnum_class c) \<longrightarrow>
          writeLocationFile w loc = writeFileSync w file locline)
     \<and> ((\<forall>c \<in> set (getTargetPlatform w). alnum_class c) \<and>
        (\<forall>c \<in> set (getTargetArch w). alnum_class c) \<longrightarrow>
          writeLocationFile w loc = writeFileSync w file
            (locline @
             ''module.exports.platform = '' @ [dquote] @ getTargetPlatform w @ [dquote, newline] @
             ''module.exports.arch = '' @ [dquote] @ getTargetArch w @ [dquote, newline]))
     \<and> (\<forall>w'. writeLocationFile w loc = Inr w' \<longrightarrow>
          (\<exists>rest. fs w' file = Inr (File (locline @ rest)))))"
proof -
  have "\<exists>rest. fs w' (path_join w (dirname w) ''location.js'')
          = Inr (File (''module.exports.location = '' @ [dquote] @
               (if getTargetPlatform w = ''win32'' then replace_backslashes loc else loc) @
               [dquote, newline] @ rest))"
    if "writeLocationFile w loc = Inr w'" for w'
  proof (cases "test_alnum (getTargetPlatform w) \<and> test_alnum (getTargetArch w)")
    case True
    with that show ?thesis
      by (auto simp add: writeLocationFile_def writeFileSync_def Let_def
          split: option.splits if_splits)
  next
    case False
    with that show ?thesis
      by (auto simp add: writeLocationFile_def writeFileSync_def Let_def
          split: option.splits if_splits)
  qed
  then show ?thesis
    by (auto simp add: writeLocationFile_def Let_def test_alnum_iff)
qed

theorem C10_fields_written_witness:
  "writeLocationFile (linux_x64\<lparr>env := [''PHANTOMJS_PLATFORM'' \<mapsto> ''linux-gnu'']\<rparr>)
       ''phantom/bin/phantomjs''
     = Inr (linux_x64\<lparr>env := [''PHANTOMJS_PLATFORM'' \<mapsto> ''linux-gnu''],
                       fs := (fs linux_x64)(''/pkg/lib/location.js'' := Inr (File
                         (''module.exports.location = '' @ [dquote] @ ''phantom/bin/phantomjs''
                            @ [dquote, newline])))\<rparr>)
   \<and> writeLocationFile linux_x64 ''phantom/bin/phantomjs'' = Inr (installed_for ''linux'')"
proof -
  have a: "\<exists>c \<in> set (getTargetPlatform (linux_x64\<lparr>env := [''PHANTOMJS_PLATFORM'' \<mapsto> ''linux-gnu'']\<rparr>)).
             \<not> alnum_class c"
    by (simp add: world_simps alnum_class_def)
  have b: "(\<forall>c \<in> set (getTargetPlatform linux_x64). alnum_class c)
           \<and> (\<forall>c \<in> set (getTargetArch linux_x64). alnum_class c)"
    by (simp add: world_simps alnum_class_def)
  from a C10_fields_written [of "linux_x64\<lparr>env := [''PHANTOMJS_PLATFORM'' \<mapsto> ''linux-gnu'']\<rparr>"
      "''phantom/bin/phantomjs''"]
  have "writeLocationFile (linux_x64\<lparr>env := [''PHANTOMJS_PLATFORM'' \<mapsto> ''linux-gnu'']\<rparr>)
          ''phantom/bin/phantomjs''
        = writeFileSync (linux_x64\<lparr>env := [''PHANTOMJS_PLATFORM'' \<mapsto> ''linux-gnu'']\<rparr>)
            ''/pkg/lib/location.js''
            (''module.exports.location = '' @ [dquote] @ ''phantom/bin/phantomjs''
               @ [dquote, newline])"
    by (simp add: Let_def world_simps)
  moreover from b C10_fields_written [of linux_x64 "''phantom/bin/phantomjs''"]
  have "writeLocationFile linux_x64 ''phantom/bin/phantomjs''
        = writeFileSync linux_x64 ''/pkg/lib/location.js''
            (record_text ''phantom/bin/phantomjs'' ''linux'' ''x64'')"
    by (simp add: Let_def world_simps)
  ultimately show ?thesis
    by (simp add: writeFileSync_def world_simps)
qed

subsection \<open>Writing a record and probing it\<close>

lemma alnum_class_plain:
  "alnum_class c \<Longrightarrow> c \<noteq> dquote \<and> c \<noteq> newline \<and> c \<noteq> creturn \<and> c \<noteq> backslash"
  by (auto simp add: alnum_class_def)

lemma escape_char_backslash: "escape_char backslash = Some backslash"
  by (simp add: escape_char_def)

text \<open>A literal without quote, line terminator and backslash reads back as it stands.\<close>

lemma read_literal_plain:
  "dquote \<notin> set s \<Longrightarrow> newline \<notin> set s \<Longrightarrow> creturn \<notin> set s \<Longrightarrow> backslash \<notin> set s
   \<Longrightarrow> read_literal (s @ dquote # rest) = Some (s, rest)"
  by (induction s) auto

text \<open>Doubling the backslashes is undone by reading the literal.\<close>

lemma read_literal_escaped:
  "dquote \<notin> set s \<Longrightarrow> newline \<notin> set s \<Longrightarrow> creturn \<notin> set s
   \<Longrightarrow> read_literal (replace_backslashes s @ dquote # rest) = Some (s, rest)"
  by (induction s) (auto simp add: escape_char_backslash)

lemma read_literal_alnum:
  "test_alnum s \<Longrightarrow> read_literal (s @ dquote # rest) = Some (s, rest)"
  by (rule read_literal_plain) (auto simp add: test_alnum_iff dest: alnum_class_plain)

lemma read_stmt_location:
  assumes "read_literal (lit @ dquote # newline # rest) = Some (v, newline # rest)"
  shows "read_stmt (''module.exports.location = '' @ [dquote] @ lit @ [dquote, newline] @ rest)
         = Some (''location'', v, rest)"
  using assms by (simp add: read_stmt_def alnum_class_def)

lemma read_stmt_platform:
  assumes "read_literal (lit @ dquote # newline # rest) = Some (v, newline # rest)"
  shows "read_stmt (''module.exports.platform = '' @ [dquote] @ lit @ [dquote, newline] @ rest)
         = Some (''platform'', v, rest)"
  using assms by (simp add: read_stmt_def alnum_class_def)

lemma read_stmt_arch:
  assumes "read_literal (lit @ dquote # newline # rest) = Some (v, newline # rest)"
  shows "read_stmt (''module.exports.arch = '' @ [dquote] @ lit @ [dquote, newline] @ rest)
         = Some (''arch'', v, rest)"
  using assms by (simp add: read_stmt_def alnum_class_def)

lemma read_record_written:
  assumes lit: "\<And>rest. read_literal (lit @ dquote # rest) = Some (v, rest)"
    and p: "test_alnum p" and a: "test_alnum a"
  shows "read_record
           (''module.exports.location = '' @ [dquote] @ lit @ [dquote, newline] @
            ''module.exports.platform = '' @ [dquote] @ p @ [dquote, newline] @
            ''module.exports.arch = '' @ [dquote] @ a @ [dquote, newline])
         = Some \<lparr>location = Some v, platform = Some p, arch = Some a\<rparr>"
proof -
  let ?archl = "''module.exports.arch = '' @ [dquote] @ a @ [dquote, newline]"
  let ?platl = "''module.exports.platform = '' @ [dquote] @ p @ [dquote, newline]"
  let ?m0 = "\<lparr>location = None, platform = None, arch = None\<rparr>"
  have s1: "read_stmt (''module.exports.location = '' @ [dquote] @ lit @ [dquote, newline]
                        @ (?platl @ ?archl))
            = Some (''location'', v, ?platl @ ?archl)"
    by (rule read_stmt_location) (rule lit)
  have s2: "read_stmt (''module.exports.platform = '' @ [dquote] @ p @ [dquote, newline] @ ?archl)
            = Some (''platform'', p, ?archl)"
    by (rule read_stmt_platform) (rule read_literal_alnum [OF p])
  have s3: "read_stmt (''module.exports.arch = '' @ [dquote] @ a @ [dquote, newline] @ [])
            = Some (''arch'', a, [])"
    by (rule read_stmt_arch) (rule read_literal_alnum [OF a])
  have r3: "read_stmts ?archl (?m0\<lparr>location := Some v, platform := Some p\<rparr>)
            = Some \<lparr>location = Some v, platform = Some p, arch = Some a\<rparr>"
    using s3 by (subst read_stmts.simps) (simp add: assign_field_def read_stmts.simps [of "[]"])
  have r2: "read_stmts (?platl @ ?archl) (?m0\<lparr>location := Some v\<rparr>)
            = Some \<lparr>location = Some v, platform = Some p, arch = Some a\<rparr>"
    using s2 r3 by (subst read_stmts.simps) (simp add: assign_field_def)
  have r1: "read_stmts (''module.exports.location = '' @ [dquote] @ lit @ [dquote, newline]
                         @ (?platl @ ?archl)) ?m0
            = Some \<lparr>location = Some v, platform = Some p, arch = Some a\<rparr>"
    using s1 r2 by (subst read_stmts.simps) (simp add: assign_field_def)
  then show ?thesis
    by (simp add: read_record_def)
qed

lemma getTarget_fs_update:
  "getTargetPlatform (w\<lparr>fs := f\<rparr>) = getTargetPlatform w"
  "getTargetArch (w\<lparr>fs := f\<rparr>) = getTargetArch w"
  by (simp_all add: getTargetPlatform_def getTargetArch_def env_or_def)

text \<open>
  C9, as the code has it. Let the target platform and architecture be alphanumeric, and
  let the location be non-empty, free of double quotes, line feeds and carriage returns
  and, unless the target platform is \<open>win32\<close>, free of backslashes. Let the write
  succeed; in the world it leaves, let the probed path name the written file, let the
  process not have loaded that file before, let evaluation load every record as it is
  read, let the resolved location be on disk and
  let the binary there report the expected version. Then the record reloads with the
  original location and the target's platform and architecture, and the probe resolves to
  the location resolved against the directory of the probed path. Under \<open>win32\<close> this
  holds for locations with backslashes: they are doubled on write and read back single.
\<close>

theorem C9_round_trip:
  assumes plat: "test_alnum (getTargetPlatform w)" and ar: "test_alnum (getTargetArch w)"
    and ne: "loc \<noteq> []"
    and q: "dquote \<notin> set loc" and nl: "newline \<notin> set loc" and cr: "creturn \<notin> set loc"
    and bs: "getTargetPlatform w \<noteq> ''win32'' \<longrightarrow> backslash \<notin> set loc"
    and wr: "writeLocationFile w loc = Inr w'"
    and rm: "resolve_module w' libPath = Some (path_join w (dirname w) ''location.js'')"
    and nc: "module_cache w' (path_join w (dirname w) ''location.js'') = None"
    and ev: "\<forall>src m. read_record src = Some m \<longrightarrow> js_eval w' src = Inr m"
    and ex: "fs w' (path_resolve w' (path_dirname w' libPath) loc) = Inr n"
    and run: "execFile w' (path_resolve w' (path_dirname w' libPath) loc) [''--version'']
              = Inr out"
    and ver: "trim out = helper_version w'"
  shows "writeThenLoad w loc libPath
           = Inr \<lparr>location = Some loc, platform = Some (getTargetPlatform w),
                  arch = Some (getTargetArch w)\<rparr>
         \<and> findValidPhantomJsBinary w' libPath
           = Resolved (JString (path_resolve w' (path_dirname w' libPath) loc))
         \<and> writeThenProbe w loc libPath
           = Inr (Resolved (JString (path_resolve w' (path_dirname w' libPath) loc)))"
proof -
  define lit where
    "lit = (if getTargetPlatform w = ''win32'' then replace_backslashes loc else loc)"
  define src where "src =
      ''module.exports.location = '' @ [dquote] @ lit @ [dquote, newline] @
      ''module.exports.platform = '' @ [dquote] @ getTargetPlatform w @ [dquote, newline] @
      ''module.exports.arch = '' @ [dquote] @ getTargetArch w @ [dquote, newline]"
  define lfile where "lfile = path_join w (dirname w) ''location.js''"
  have w': "w' = w\<lparr>fs := (fs w)(lfile := Inr (File src))\<rparr>"
    using wr plat ar
    by (auto simp add: writeLocationFile_def writeFileSync_def Let_def lit_def src_def lfile_def
        split: option.splits if_splits)
  have lit: "read_literal (lit @ dquote # rest) = Some (loc, rest)" for rest
  proof (cases "getTargetPlatform w = ''win32''")
    case True
    then show ?thesis
      using q nl cr by (simp add: lit_def read_literal_escaped)
  next
    case False
    then show ?thesis
      using q nl cr bs by (simp add: lit_def read_literal_plain)
  qed
  have "read_record src
        = Some \<lparr>location = Some loc, platform = Some (getTargetPlatform w),
                 arch = Some (getTargetArch w)\<rparr>"
    unfolding src_def by (rule read_record_written [OF lit plat ar])
  with ev have "js_eval w' src
        = Inr \<lparr>location = Some loc, platform = Some (getTargetPlatform w),
                arch = Some (getTargetArch w)\<rparr>"
    by blast
  moreover have "fs w' lfile = Inr (File src)"
    by (simp add: w')
  ultimately have req: "require w' libPath
        = Inr \<lparr>location = Some loc, platform = Some (getTargetPlatform w),
                arch = Some (getTargetArch w)\<rparr>"
    using rm nc by (simp add: require_def lfile_def)
  have same: "getTargetPlatform w' = getTargetPlatform w" "getTargetArch w' = getTargetArch w"
    by (simp_all add: w' getTarget_fs_update)
  have probe: "findValidPhantomJsBinary w' libPath
        = Resolved (JString (path_resolve w' (path_dirname w' libPath) loc))"
    using req ne ex run ver by (simp add: findValidPhantomJsBinary_eq same)
  from req probe wr show ?thesis
    by (simp add: writeThenProbe_def writeThenLoad_def)
qed

lemmas windows_simps =
  win32_x64_def win32_installed_def windows_lib_def windows_location_def record_text_def
  getTargetPlatform_def getTargetArch_def env_or_def

theorem C9_round_trip_witness:
  "writeThenProbe linux_x64 ''phantom/bin/phantomjs'' ''/pkg/lib/location''
     = Inr (Resolved (JString ''/pkg/lib/phantom/bin/phantomjs''))
   \<and> writeThenLoad win32_x64 windows_location (windows_lib @ [backslash] @ ''location'')
     = Inr \<lparr>location = Some windows_location, platform = Some ''win32'', arch = Some ''x64''\<rparr>
   \<and> writeThenProbe win32_x64 windows_location (windows_lib @ [backslash] @ ''location'')
     = Inr (Resolved (JString (windows_lib @ [backslash] @ windows_location)))"
proof -
  have l: "writeThenProbe linux_x64 ''phantom/bin/phantomjs'' ''/pkg/lib/location''
     = Inr (Resolved (JString (path_resolve (installed_for ''linux'')
         (path_dirname (installed_for ''linux'') ''/pkg/lib/location'') ''phantom/bin/phantomjs'')))"
  proof (rule C9_round_trip [THEN conjunct2, THEN conjunct2])
    show "writeLocationFile linux_x64 ''phantom/bin/phantomjs'' = Inr (installed_for ''linux'')"
      by (simp add: world_simps writeLocationFile_def writeFileSync_def alnum_class_def)
    show "\<forall>src m. read_record src = Some m \<longrightarrow> js_eval (installed_for ''linux'') src = Inr m"
      by (simp add: world_simps eval_record_def)
    show "fs (installed_for ''linux'') (path_resolve (installed_for ''linux'')
            (path_dirname (installed_for ''linux'') ''/pkg/lib/location'') ''phantom/bin/phantomjs'')
          = Inr (File ''ELF'')"
      by (simp add: world_simps)
    show "execFile (installed_for ''linux'') (path_resolve (installed_for ''linux'')
            (path_dirname (installed_for ''linux'') ''/pkg/lib/location'') ''phantom/bin/phantomjs'')
            [''--version''] = Inr (''2.1.1'' @ [newline])"
      by (simp add: world_simps)
    show "trim (''2.1.1'' @ [newline]) = helper_version (installed_for ''linux'')"
      by (simp add: world_simps trim_def is_js_space_def)
  qed (simp_all add: world_simps alnum_class_def)
  have m: "writeThenLoad win32_x64 windows_location (windows_lib @ [backslash] @ ''location'')
       = Inr \<lparr>location = Some windows_location, platform = Some (getTargetPlatform win32_x64),
              arch = Some (getTargetArch win32_x64)\<rparr>
     \<and> findValidPhantomJsBinary win32_installed (windows_lib @ [backslash] @ ''location'')
       = Resolved (JString (path_resolve win32_installed
           (path_dirname win32_installed (windows_lib @ [backslash] @ ''location''))
           windows_location))
     \<and> writeThenProbe win32_x64 windows_location (windows_lib @ [backslash] @ ''location'')
       = Inr (Resolved (JString (path_resolve win32_installed
           (path_dirname win32_installed (windows_lib @ [backslash] @ ''location''))
           windows_location)))"
  proof (rule C9_round_trip)
    show "writeLocationFile win32_x64 windows_location = Inr win32_installed"
      by (simp add: windows_simps writeLocationFile_def writeFileSync_def alnum_class_def)
    show "\<forall>src m. read_record src = Some m \<longrightarrow> js_eval win32_installed src = Inr m"
      by (simp add: windows_simps eval_record_def)
    show "fs win32_installed (path_resolve win32_installed
            (path_dirname win32_installed (windows_lib @ [backslash] @ ''location''))
            windows_location) = Inr (File ''MZ'')"
      by (simp add: windows_simps)
    show "execFile win32_installed (path_resolve win32_installed
            (path_dirname win32_installed (windows_lib @ [backslash] @ ''location''))
            windows_location) [''--version''] = Inr (''2.1.1'' @ [creturn, newline])"
      by (simp add: windows_simps)
    show "trim (''2.1.1'' @ [creturn, newline]) = helper_version win32_installed"
      by (simp add: windows_simps trim_def is_js_space_def)
  qed (simp_all add: windows_simps alnum_class_def)
  from l m show ?thesis
    by (simp add: world_simps windows_simps)
qed

text \<open>
  C9 as the specification states it fails where the location needs an escape that the
  writer does not make. On the Linux host the binary lies at \<open>/opt/my\tools/phantomjs\<close>
  and reports the expected version. The writer copies the backslash as it is, the
  record's \<open>\t\<close> reloads as a tabulator, nothing is at the reloaded location, and the
  probe resolves to \<open>false\<close>.
\<close>

theorem C9_unescaped_backslash_counterexample:
  "getTargetPlatform linux_backslash = ''linux''
   \<and> fs linux_backslash backslash_location = Inr (File ''ELF'')
   \<and> checkPhantomjsVersion linux_backslash backslash_location = Resolved True
   \<and> path_resolve linux_backslash (path_dirname linux_backslash ''/pkg/lib/location'')
        backslash_location = backslash_location
   \<and> writeThenLoad linux_backslash backslash_location ''/pkg/lib/location''
     = Inr \<lparr>location = Some (''/opt/my'' @ [CHR 0x09] @ ''ools/phantomjs''),
            platform = Some ''linux'', arch = Some ''x64''\<rparr>
   \<and> writeThenProbe linux_backslash backslash_location ''/pkg/lib/location''
     = Inr (Resolved (JBool False))"
  by (simp add: linux_backslash_def backslash_location_def world_simps probe_simps
      writeLocationFile_def writeFileSync_def writeThenProbe_def writeThenLoad_def)

text \<open>
  The round trip also needs a process that has not loaded the record before. On the
  Linux host with a record written for darwin, a first probe loads that record and
  resolves to \<open>false\<close>. The record is then written anew for linux; the second probe
  gets the exports of the first load from the cache, and resolves to \<open>false\<close> again.
\<close>

lemma stale_cache_round_trip:
  "findValidPhantomJsBinary (installed_for ''darwin'') ''/pkg/lib/location''
     = Resolved (JBool False)
   \<and> module_cache (after_probe (installed_for ''darwin'') ''/pkg/lib/location'')
        ''/pkg/lib/location.js''
     = Some \<lparr>location = Some ''phantom/bin/phantomjs'', platform = Some ''darwin'',
              arch = Some ''x64''\<rparr>
   \<and> writeThenLoad (after_probe (installed_for ''darwin'') ''/pkg/lib/location'')
        ''phantom/bin/phantomjs'' ''/pkg/lib/location''
     = Inr \<lparr>location = Some ''phantom/bin/phantomjs'', platform = Some ''darwin'',
             arch = Some ''x64''\<rparr>
   \<and> writeThenProbe (after_probe (installed_for ''darwin'') ''/pkg/lib/location'')
        ''phantom/bin/phantomjs'' ''/pkg/lib/location''
     = Inr (Resolved (JBool False))"
  by (simp add: world_simps probe_simps after_probe_def after_require_def
      writeLocationFile_def writeFileSync_def writeThenProbe_def writeThenLoad_def)

end
